theory Spec2Isabelle
  imports Complex_Main
begin

section \<open>Budget tracker backend: data model\<close>

text \<open>
  The embedding follows \<^verbatim>\<open>src/schemas.py\<close> and \<^verbatim>\<open>src/main.py\<close>.
  Python's \<^verbatim>\<open>float\<close> amounts are modelled as exact rationals: sums, differences,
  quotients and comparisons are those of \<open>rat\<close>, and the rounding, infinities and NaN of
  IEEE doubles are not part of the model. The store handle \<^verbatim>\<open>db\<close> is taken to be
  available; a collection is the list of its documents in insertion order.
\<close>

subsection \<open>Errors\<close>

datatype error =
    HTTPException nat string
  | RequestValidationError
  | ZeroDivisionError

subsection \<open>Schemas (\<^verbatim>\<open>src/schemas.py\<close>)\<close>

type_synonym date = string

record Category =
  name :: string
  emoji :: "string option"

record Allocation =
  category_id :: string
  target :: rat

record Budget =
  month :: string
  income :: rat
  allocations :: "Allocation list"

record Expense =
  e_month :: string
  e_category_id :: string
  e_amount :: rat
  e_note :: "string option"
  e_spent_on :: "date option"

text \<open>The \<^verbatim>\<open>Field(..., ge=0)\<close> constraints of the schemas.\<close>

definition Allocation_valid :: "Allocation \<Rightarrow> bool" where
  "Allocation_valid a = (0 \<le> target a)"

definition Budget_valid :: "Budget \<Rightarrow> bool" where
  "Budget_valid b = (0 \<le> income b \<and> list_all Allocation_valid (allocations b))"

definition Expense_valid :: "Expense \<Rightarrow> bool" where
  "Expense_valid e = (0 \<le> e_amount e)"

subsection \<open>Request models (\<^verbatim>\<open>src/main.py\<close>)\<close>

text \<open>
  \<^verbatim>\<open>BudgetCreate\<close> declares \<^verbatim>\<open>income: float\<close> with no bound and reuses
  \<^verbatim>\<open>Allocation\<close>, whose \<^verbatim>\<open>target\<close> keeps its \<^verbatim>\<open>ge=0\<close>.
  \<^verbatim>\<open>ExpenseCreate\<close> declares \<^verbatim>\<open>month\<close>, \<^verbatim>\<open>category_id\<close>,
  \<^verbatim>\<open>amount: float\<close> and an optional \<^verbatim>\<open>note\<close>, nothing else.
\<close>

record BudgetCreate =
  bc_month :: string
  bc_income :: rat
  bc_allocations :: "Allocation list"

record ExpenseCreate =
  ec_month :: string
  ec_category_id :: string
  ec_amount :: rat
  ec_note :: "string option"

definition BudgetCreate_valid :: "BudgetCreate \<Rightarrow> bool" where
  "BudgetCreate_valid b = list_all Allocation_valid (bc_allocations b)"

definition ExpenseCreate_valid :: "ExpenseCreate \<Rightarrow> bool" where
  "ExpenseCreate_valid e = True"

text \<open>
  The JSON body a client may post to \<^verbatim>\<open>/api/expenses\<close>. Pydantic keeps the keys
  the request model declares and ignores the others, so \<^verbatim>\<open>spent_on\<close> does not reach
  \<^verbatim>\<open>ExpenseCreate\<close>.
\<close>

record expense_body =
  body_month :: string
  body_category_id :: string
  body_amount :: rat
  body_note :: "string option"
  body_spent_on :: "date option"

definition ExpenseCreate_parse :: "expense_body \<Rightarrow> ExpenseCreate" where
  "ExpenseCreate_parse b =
     \<lparr>ec_month = body_month b, ec_category_id = body_category_id b,
      ec_amount = body_amount b, ec_note = body_note b\<rparr>"

subsection \<open>The document store\<close>

text \<open>
  A stored document is its \<^verbatim>\<open>_id\<close> (in the string form that \<^verbatim>\<open>str(ObjectId)\<close>
  gives) together with the fields that \<^verbatim>\<open>model_dump()\<close> wrote.
\<close>

type_synonym oid = string
type_synonym 'a document = "oid \<times> 'a"

record store =
  category :: "Category document list"
  budget :: "BudgetCreate document list"
  expense :: "ExpenseCreate document list"

definition empty_store :: store where
  "empty_store = \<lparr>category = [], budget = [], expense = []\<rparr>"

text \<open>
  Modelled from the spec: \<^verbatim>\<open>database.create_document\<close> and
  \<^verbatim>\<open>database.get_documents\<close>, which \<^verbatim>\<open>main.py\<close> imports and which are not among
  the sources. The spec describes creation as a plain insert that yields the document
  under a generated id (4.1, 4.3) and listing as the sequence of stored documents. The id
  the driver generates is an argument of the model.
\<close>

definition create_document :: "'a document list \<Rightarrow> 'a \<Rightarrow> oid \<Rightarrow> 'a document list \<times> oid" where
  "create_document coll data new_id = (coll @ [(new_id, data)], new_id)"

definition get_documents :: "'a document list \<Rightarrow> 'a document list" where
  "get_documents coll = coll"

text \<open>The collection operations of the driver that \<^verbatim>\<open>main.py\<close> calls.\<close>

definition find_one :: "('a document \<Rightarrow> bool) \<Rightarrow> 'a document list \<Rightarrow> 'a document option" where
  "find_one q coll = find q coll"

definition delete_many :: "('a document \<Rightarrow> bool) \<Rightarrow> 'a document list \<Rightarrow> 'a document list" where
  "delete_many q coll = filter (\<lambda>d. \<not> q d) coll"

definition serialize_doc :: "'a document option \<Rightarrow> 'a document option" where
  "serialize_doc doc = (case doc of None \<Rightarrow> None | Some (i, d) \<Rightarrow> Some (i, d))"

subsection \<open>Python dictionaries\<close>

text \<open>
  A \<^verbatim>\<open>dict\<close> is an association list with distinct keys in insertion order:
  assigning to a key that is present replaces its value in place, assigning to a new key
  appends it.
\<close>

type_synonym ('k, 'v) dict = "('k \<times> 'v) list"

fun setitem :: "'k \<Rightarrow> 'v \<Rightarrow> ('k, 'v) dict \<Rightarrow> ('k, 'v) dict" where
  "setitem k v [] = [(k, v)]"
| "setitem k v ((k', v') # d) = (if k' = k then (k, v) # d else (k', v') # setitem k v d)"

definition dict_get :: "('k, 'v) dict \<Rightarrow> 'k \<Rightarrow> 'v \<Rightarrow> 'v" where
  "dict_get d k dflt = (case map_of d k of None \<Rightarrow> dflt | Some v \<Rightarrow> v)"

definition dict_values :: "('k, 'v) dict \<Rightarrow> 'v list" where
  "dict_values d = map snd d"

text \<open>A dictionary filled by assigning the pairs of a sequence one after the other.\<close>

fun dict_fill :: "('k, 'v) dict \<Rightarrow> ('k \<times> 'v) list \<Rightarrow> ('k, 'v) dict" where
  "dict_fill d [] = d"
| "dict_fill d ((k, v) # kvs) = dict_fill (setitem k v d) kvs"

definition py_truediv :: "rat \<Rightarrow> rat \<Rightarrow> error + rat" where
  "py_truediv a b = (if b = 0 then Inl ZeroDivisionError else Inr (a / b))"


section \<open>The endpoints (\<^verbatim>\<open>src/main.py\<close>)\<close>

subsection \<open>Categories\<close>

definition create_category :: "store \<Rightarrow> Category \<Rightarrow> oid \<Rightarrow> store \<times> Category document option" where
  "create_category db cat new_id =
     (let (coll, inserted_id) = create_document (category db) cat new_id;
          db' = db\<lparr>category := coll\<rparr>;
          doc = find_one (\<lambda>d. fst d = inserted_id) (category db')
      in (db', serialize_doc doc))"

definition list_categories :: "store \<Rightarrow> Category document list" where
  "list_categories db = get_documents (category db)"

subsection \<open>Budgets\<close>

definition create_budget :: "store \<Rightarrow> BudgetCreate \<Rightarrow> oid \<Rightarrow> store \<times> BudgetCreate document option" where
  "create_budget db b new_id =
     (let m = bc_month b;
          db1 = db\<lparr>budget := delete_many (\<lambda>d. bc_month (snd d) = m) (budget db)\<rparr>;
          (coll, inserted_id) = create_document (budget db1) b new_id;
          db2 = db1\<lparr>budget := coll\<rparr>;
          doc = find_one (\<lambda>d. fst d = inserted_id) (budget db2)
      in (db2, serialize_doc doc))"

definition get_budget :: "store \<Rightarrow> string \<Rightarrow> error + BudgetCreate document option" where
  "get_budget db m =
     (case find_one (\<lambda>d. bc_month (snd d) = m) (budget db) of
        None \<Rightarrow> Inl (HTTPException 404 ''Budget not found for month'')
      | Some doc \<Rightarrow> Inr (serialize_doc (Some doc)))"

subsection \<open>Expenses\<close>

definition add_expense :: "store \<Rightarrow> ExpenseCreate \<Rightarrow> oid \<Rightarrow> store \<times> ExpenseCreate document option" where
  "add_expense db e new_id =
     (let (coll, inserted_id) = create_document (expense db) e new_id;
          db' = db\<lparr>expense := coll\<rparr>;
          doc = find_one (\<lambda>d. fst d = inserted_id) (expense db')
      in (db', serialize_doc doc))"


subsection \<open>The routes, with the validation of the request body\<close>

text \<open>
  The framework validates the body against the handler's request model before the
  handler runs, and answers a failed validation without calling it.
\<close>

definition post_budgets :: "store \<Rightarrow> BudgetCreate \<Rightarrow> oid \<Rightarrow> error + store \<times> BudgetCreate document option" where
  "post_budgets db body new_id =
     (if BudgetCreate_valid body then Inr (create_budget db body new_id)
      else Inl RequestValidationError)"

definition post_expenses :: "store \<Rightarrow> expense_body \<Rightarrow> oid \<Rightarrow> error + store \<times> ExpenseCreate document option" where
  "post_expenses db body new_id =
     (let e = ExpenseCreate_parse body
      in if ExpenseCreate_valid e then Inr (add_expense db e new_id)
         else Inl RequestValidationError)"

subsection \<open>Summary\<close>

record category_summary =
  cs_id :: string
  cs_name :: string
  cs_emoji :: "string option"
  cs_target :: rat
  cs_spent :: rat
  cs_progress :: "rat option"

record summary_doc =
  s_month :: string
  s_income :: rat
  s_total_target :: rat
  s_total_spent :: rat
  s_remaining :: rat
  s_categories :: "category_summary list"

text \<open>
  \<^verbatim>\<open>allocations_map\<close> and \<^verbatim>\<open>income\<close>: zero and empty without a budget document,
  otherwise the income and one assignment per allocation, in list order. The documents
  of the store are those that \<^verbatim>\<open>model_dump()\<close> wrote, which carry every field of their
  request model, so the defaults of the \<^verbatim>\<open>.get(key, default)\<close> reads are never taken
  and the model reads the fields directly.
\<close>

definition allocations_map_of :: "BudgetCreate document option \<Rightarrow> (string, rat) dict" where
  "allocations_map_of budget_doc =
     (case budget_doc of
        None \<Rightarrow> []
      | Some (_, b) \<Rightarrow> dict_fill [] (map (\<lambda>alloc. (category_id alloc, target alloc)) (bc_allocations b)))"

definition income_of :: "BudgetCreate document option \<Rightarrow> rat" where
  "income_of budget_doc = (case budget_doc of None \<Rightarrow> 0 | Some (_, b) \<Rightarrow> bc_income b)"

text \<open>
  The aggregation pipeline: \<^verbatim>\<open>$match\<close> keeps the expenses of the month,
  \<^verbatim>\<open>$group\<close> adds each amount to the running sum of its \<^verbatim>\<open>category_id\<close>.
\<close>

fun group_sum :: "(string, rat) dict \<Rightarrow> ExpenseCreate document list \<Rightarrow> (string, rat) dict" where
  "group_sum acc [] = acc"
| "group_sum acc (d # ds) =
     group_sum (setitem (ec_category_id (snd d)) (dict_get acc (ec_category_id (snd d)) 0 + ec_amount (snd d)) acc) ds"

definition aggregate :: "string \<Rightarrow> ExpenseCreate document list \<Rightarrow> (string \<times> rat) list" where
  "aggregate m coll = group_sum [] (filter (\<lambda>d. ec_month (snd d) = m) coll)"

definition progress_of :: "rat \<Rightarrow> rat \<Rightarrow> error + rat option" where
  "progress_of spent tgt =
     (if tgt > 0 then
        (case py_truediv spent tgt of Inl e \<Rightarrow> Inl e | Inr q \<Rightarrow> Inr (Some (q * 100)))
      else Inr None)"

text \<open>The loop over \<^verbatim>\<open>categories.items()\<close>, appending one row per item.\<close>

fun categories_summary_loop ::
  "(string, rat) dict \<Rightarrow> (string, rat) dict \<Rightarrow> category_summary list \<Rightarrow>
   (string, Category) dict \<Rightarrow> error + category_summary list" where
  "categories_summary_loop allocations_map spent_by_cat acc [] = Inr acc"
| "categories_summary_loop allocations_map spent_by_cat acc ((cat_id, cat) # items) =
     (let tgt = dict_get allocations_map cat_id 0;
          spent = dict_get spent_by_cat cat_id 0
      in case progress_of spent tgt of
           Inl e \<Rightarrow> Inl e
         | Inr progress \<Rightarrow>
             categories_summary_loop allocations_map spent_by_cat
               (acc @ [\<lparr>cs_id = cat_id, cs_name = name cat, cs_emoji = emoji cat,
                        cs_target = tgt, cs_spent = spent, cs_progress = progress\<rparr>])
               items)"

definition summary :: "store \<Rightarrow> string \<Rightarrow> error + summary_doc" where
  "summary db m =
     (let budget_doc = find_one (\<lambda>d. bc_month (snd d) = m) (budget db);
          allocations_map = allocations_map_of budget_doc;
          income = income_of budget_doc;
          spent_by_cat = dict_fill [] (aggregate m (expense db));
          categories = dict_fill [] (category db)
      in case categories_summary_loop allocations_map spent_by_cat [] categories of
           Inl e \<Rightarrow> Inl e
         | Inr categories_summary \<Rightarrow>
             Inr \<lparr>s_month = m,
                  s_income = income,
                  s_total_target = sum_list (dict_values allocations_map),
                  s_total_spent = sum_list (dict_values spent_by_cat),
                  s_remaining = max (income - sum_list (dict_values spent_by_cat)) 0,
                  s_categories = categories_summary\<rparr>)"


section \<open>Notions used to state the properties\<close>

text \<open>The row that one pass of the loop appends for the item \<open>(cat_id, cat)\<close>.\<close>

definition category_row :: "(string, rat) dict \<Rightarrow> (string, rat) dict \<Rightarrow> string \<times> Category \<Rightarrow> category_summary" where
  "category_row allocations_map spent_by_cat item =
     (let tgt = dict_get allocations_map (fst item) 0;
          spent = dict_get spent_by_cat (fst item) 0
      in \<lparr>cs_id = fst item, cs_name = name (snd item), cs_emoji = emoji (snd item),
          cs_target = tgt, cs_spent = spent,
          cs_progress = (if tgt > 0 then Some (spent / tgt * 100) else None)\<rparr>)"

text \<open>The allocation list that \<^verbatim>\<open>summary\<close> reads for a month: empty without a budget.\<close>

definition month_allocations :: "store \<Rightarrow> string \<Rightarrow> Allocation list" where
  "month_allocations db m =
     (case find_one (\<lambda>d. bc_month (snd d) = m) (budget db) of
        None \<Rightarrow> []
      | Some (_, b) \<Rightarrow> bc_allocations b)"

text \<open>
  The spec's wording of step 2, last write wins: the target of the last allocation of the
  list that names the category, zero when none does.
\<close>

definition last_target :: "Allocation list \<Rightarrow> string \<Rightarrow> rat" where
  "last_target allocs k =
     (case filter (\<lambda>a. category_id a = k) allocs of
        [] \<Rightarrow> 0
      | a # as \<Rightarrow> target (last (a # as)))"



subsection \<open>A small store for concrete runs\<close>

text \<open>
  Two categories of the same name; a budget for January whose allocation list names
  \<open>c1\<close> twice and a category that does not exist; expenses of January on \<open>c1\<close> and on
  a category that does not exist, and one of February.
\<close>

definition example_store :: store where
  "example_store =
     \<lparr>category = [(''c1'', \<lparr>name = ''Food'', emoji = None\<rparr>),
                  (''c2'', \<lparr>name = ''Food'', emoji = None\<rparr>)],
      budget = [(''b1'', \<lparr>bc_month = ''2024-01'', bc_income = 100,
                  bc_allocations = [\<lparr>category_id = ''c1'', target = 40\<rparr>,
                                    \<lparr>category_id = ''c1'', target = 50\<rparr>,
                                    \<lparr>category_id = ''zz'', target = 7\<rparr>]\<rparr>)],
      expense = [(''e1'', \<lparr>ec_month = ''2024-01'', ec_category_id = ''c1'', ec_amount = 20, ec_note = None\<rparr>),
                 (''e2'', \<lparr>ec_month = ''2024-01'', ec_category_id = ''orphan'', ec_amount = 5, ec_note = None\<rparr>),
                 (''e3'', \<lparr>ec_month = ''2024-02'', ec_category_id = ''c2'', ec_amount = 3, ec_note = None\<rparr>)]\<rparr>"




subsection \<open>The scenario of the spec\<close>

text \<open>
  The emoji of the scenario's category, U+1F354, as the bytes of its UTF-8 form.
\<close>

definition burger :: string where
  "burger = [CHR 0xF0, CHR 0x9F, CHR 0x8D, CHR 0x94]"

definition food :: Category where
  "food = \<lparr>name = ''Food'', emoji = Some burger\<rparr>"

definition january_budget :: "oid \<Rightarrow> BudgetCreate" where
  "january_budget c1 =
     \<lparr>bc_month = ''2024-01'', bc_income = 1000,
      bc_allocations = [\<lparr>category_id = c1, target = 300\<rparr>]\<rparr>"

definition january_expense :: "oid \<Rightarrow> rat \<Rightarrow> expense_body" where
  "january_expense c1 amt =
     \<lparr>body_month = ''2024-01'', body_category_id = c1, body_amount = amt,
      body_note = None, body_spent_on = None\<rparr>"

text \<open>
  The store after the four writes of the scenario, from an empty store; \<open>c1\<close>, \<open>b1\<close>,
  \<open>e1\<close> and \<open>e2\<close> are the ids that the driver gives to the four documents.
\<close>

definition scenario_store :: "oid \<Rightarrow> oid \<Rightarrow> oid \<Rightarrow> oid \<Rightarrow> store" where
  "scenario_store c1 b1 e1 e2 =
     (let db1 = fst (create_category empty_store food c1);
          db2 = fst (create_budget db1 (january_budget c1) b1);
          db3 = fst (add_expense db2 (ExpenseCreate_parse (january_expense c1 100)) e1);
          db4 = fst (add_expense db3 (ExpenseCreate_parse (january_expense c1 50)) e2)
      in db4)"


section \<open>Dictionaries: keys, lookups and sums\<close>

lemma map_of_setitem: "map_of (setitem k v d) = (map_of d)(k \<mapsto> v)"
  by (induction d) (auto simp: fun_eq_iff)

lemma map_fst_setitem:
  "map fst (setitem k v d) = (if k \<in> fst ` set d then map fst d else map fst d @ [k])"
  by (induction d) force+

lemma keys_setitem: "fst ` set (setitem k v d) = insert k (fst ` set d)"
proof -
  have "set (map fst (setitem k v d)) = insert k (set (map fst d))"
    unfolding map_fst_setitem by auto
  then show ?thesis by simp
qed

lemma distinct_setitem: "distinct (map fst d) \<Longrightarrow> distinct (map fst (setitem k v d))"
  unfolding map_fst_setitem by simp

lemma dict_get_Nil: "dict_get [] k x = x"
  by (simp add: dict_get_def)

lemma dict_get_Cons: "dict_get ((a, b) # d) k x = (if a = k then b else dict_get d k x)"
  by (simp add: dict_get_def)


lemma setitem_fresh: "k \<notin> fst ` set d \<Longrightarrow> setitem k v d = d @ [(k, v)]"
  by (induction d) auto

lemma keys_dict_fill: "fst ` set (dict_fill d kvs) = fst ` set d \<union> fst ` set kvs"
  by (induction d kvs rule: dict_fill.induct) (auto simp: keys_setitem)

lemma distinct_dict_fill: "distinct (map fst d) \<Longrightarrow> distinct (map fst (dict_fill d kvs))"
  by (induction d kvs rule: dict_fill.induct) (auto simp: distinct_setitem)

lemma map_of_dict_fill: "map_of (dict_fill d kvs) = map_of d ++ map_of (rev kvs)"
  by (induction d kvs rule: dict_fill.induct) (auto simp: map_of_setitem fun_eq_iff map_add_def split: option.splits)

lemma dict_fill_distinct: "distinct (map fst (d @ kvs)) \<Longrightarrow> dict_fill d kvs = d @ kvs"
  by (induction d kvs rule: dict_fill.induct) (auto simp: setitem_fresh)




lemma progress_of_eq:
  "progress_of spent tgt = Inr (if tgt > 0 then Some (spent / tgt * 100) else None)"
  by (simp add: progress_of_def py_truediv_def)


section \<open>The summary in closed form\<close>

text \<open>
  The loop never takes its error branch: the quotient is formed only under the guard
  \<open>tgt > 0\<close>. So \<^verbatim>\<open>summary\<close> always answers, and its answer can be written down.
\<close>

lemma loop_eq:
  "categories_summary_loop am sm acc items = Inr (acc @ map (category_row am sm) items)"
  by (induction am sm acc items rule: categories_summary_loop.induct)
     (simp_all add: progress_of_eq category_row_def Let_def)

lemma summary_eq:
  "summary db m =
     Inr \<lparr>s_month = m,
          s_income = income_of (find_one (\<lambda>d. bc_month (snd d) = m) (budget db)),
          s_total_target = sum_list (dict_values (allocations_map_of (find_one (\<lambda>d. bc_month (snd d) = m) (budget db)))),
          s_total_spent = sum_list (dict_values (dict_fill [] (aggregate m (expense db)))),
          s_remaining = max (income_of (find_one (\<lambda>d. bc_month (snd d) = m) (budget db))
                             - sum_list (dict_values (dict_fill [] (aggregate m (expense db))))) 0,
          s_categories = map (category_row (allocations_map_of (find_one (\<lambda>d. bc_month (snd d) = m) (budget db)))
                                           (dict_fill [] (aggregate m (expense db))))
                             (dict_fill [] (category db))\<rparr>"
  by (simp add: summary_def Let_def loop_eq)

lemma find_one_None: "(find_one q coll = None) = (\<forall>d\<in>set coll. \<not> q d)"
  by (auto simp: find_one_def find_None_iff)


text \<open>Two runs on the small store.\<close>

lemma example_january:
  "summary example_store ''2024-01'' =
     Inr \<lparr>s_month = ''2024-01'', s_income = 100, s_total_target = 57, s_total_spent = 25,
          s_remaining = 75,
          s_categories =
            [\<lparr>cs_id = ''c1'', cs_name = ''Food'', cs_emoji = None, cs_target = 50, cs_spent = 20,
              cs_progress = Some 40\<rparr>,
             \<lparr>cs_id = ''c2'', cs_name = ''Food'', cs_emoji = None, cs_target = 0, cs_spent = 0,
              cs_progress = None\<rparr>]\<rparr>"
  by (simp add: summary_def example_store_def find_one_def allocations_map_of_def income_of_def
        aggregate_def dict_get_def dict_values_def progress_of_def py_truediv_def Let_def)

lemma example_february:
  "summary example_store ''2024-02'' =
     Inr \<lparr>s_month = ''2024-02'', s_income = 0, s_total_target = 0, s_total_spent = 3,
          s_remaining = 0,
          s_categories =
            [\<lparr>cs_id = ''c1'', cs_name = ''Food'', cs_emoji = None, cs_target = 0, cs_spent = 0,
              cs_progress = None\<rparr>,
             \<lparr>cs_id = ''c2'', cs_name = ''Food'', cs_emoji = None, cs_target = 0, cs_spent = 3,
              cs_progress = None\<rparr>]\<rparr>"
  by (simp add: summary_def example_store_def find_one_def allocations_map_of_def income_of_def
        aggregate_def dict_get_def dict_values_def progress_of_def py_truediv_def Let_def)


section \<open>Per-category totals and last-write-wins targets\<close>





lemma dict_get_member:
  "distinct (map fst d) \<Longrightarrow> (k, v) \<in> set d \<Longrightarrow> dict_get d k x = v"
  by (simp add: dict_get_def)

lemma sum_values_by_key:
  assumes dist: "distinct (map fst d)"
  shows "sum_list (map snd d) = (\<Sum>k\<in>fst ` set d. dict_get d k (0::rat))"
proof -
  have "\<forall>p\<in>set d. dict_get d (fst p) 0 = snd p"
    using dict_get_member [OF dist] by auto
  then have eq: "map snd d = map (\<lambda>k. dict_get d k 0) (map fst d)"
    by simp
  have "sum_list (map snd d) = sum_list (map (\<lambda>k. dict_get d k 0) (map fst d))"
    by (simp only: eq)
  also have "\<dots> = (\<Sum>k\<in>set (map fst d). dict_get d k 0)"
    using dist by (rule sum_list_distinct_conv_sum_set)
  finally show ?thesis by simp
qed




lemma last_target_Nil: "last_target [] k = 0"
  by (simp add: last_target_def)

lemma last_target_Cons:
  "last_target (a # as) k =
     (if k \<in> category_id ` set as then last_target as k
      else if category_id a = k then target a else 0)"
proof (cases "filter (\<lambda>a. category_id a = k) as")
  case Nil
  then have "k \<notin> category_id ` set as"
    by (auto simp: filter_empty_conv)
  with Nil show ?thesis by (simp add: last_target_def)
next
  case (Cons b bs)
  then have "b \<in> set (filter (\<lambda>a. category_id a = k) as)" by simp
  then have "k \<in> category_id ` set as" by auto
  with Cons show ?thesis by (simp add: last_target_def)
qed

lemma dict_get_dict_fill:
  "dict_get (dict_fill d kvs) k x = dict_get (rev kvs @ d) k x"
  by (simp add: dict_get_def map_of_dict_fill)

lemma dict_get_append:
  "dict_get (xs @ ys) k x = (if k \<in> fst ` set xs then dict_get xs k x else dict_get ys k x)"
proof (cases "map_of xs k")
  case None
  then have "k \<notin> fst ` set xs" by (simp add: map_of_eq_None_iff)
  with None show ?thesis by (simp add: dict_get_def map_add_def)
next
  case (Some v)
  then have "k \<in> fst ` set xs" by (metis map_of_eq_None_iff option.distinct(1))
  with Some show ?thesis by (simp add: dict_get_def map_add_def)
qed

lemma dict_get_rev_allocs:
  "dict_get (rev (map (\<lambda>a. (category_id a, target a)) allocs)) k 0 = last_target allocs k"
  by (induction allocs) (auto simp: dict_get_Nil dict_get_Cons dict_get_append last_target_Nil last_target_Cons image_iff)

lemma allocations_map_get:
  "dict_get (allocations_map_of (find_one (\<lambda>d. bc_month (snd d) = m) (budget db))) k 0 =
     last_target (month_allocations db m) k"
proof (cases "find_one (\<lambda>d. bc_month (snd d) = m) (budget db)")
  case None
  then show ?thesis
    by (simp add: allocations_map_of_def month_allocations_def dict_get_Nil last_target_Nil)
next
  case (Some doc)
  then show ?thesis
    by (cases doc)
       (simp add: allocations_map_of_def month_allocations_def dict_get_dict_fill dict_get_rev_allocs)
qed

lemma allocations_map_keys:
  "fst ` set (allocations_map_of (find_one (\<lambda>d. bc_month (snd d) = m) (budget db))) =
     category_id ` set (month_allocations db m)"
proof (cases "find_one (\<lambda>d. bc_month (snd d) = m) (budget db)")
  case None
  then show ?thesis
    by (simp add: allocations_map_of_def month_allocations_def)
next
  case (Some doc)
  then show ?thesis
    by (cases doc)
       (simp add: allocations_map_of_def month_allocations_def keys_dict_fill image_image)
qed

lemma allocations_map_distinct:
  "distinct (map fst (allocations_map_of bd))"
  by (auto simp: allocations_map_of_def distinct_dict_fill split: option.splits)

lemma total_target_by_category:
  "sum_list (dict_values (allocations_map_of (find_one (\<lambda>d. bc_month (snd d) = m) (budget db)))) =
     (\<Sum>k\<in>category_id ` set (month_allocations db m). last_target (month_allocations db m) k)"
  by (simp add: dict_values_def sum_values_by_key [OF allocations_map_distinct]
        allocations_map_keys allocations_map_get)



lemma cs_id_category_row: "cs_id (category_row am sm item) = fst item"
  by (simp add: category_row_def Let_def)

lemma rows_ids: "map cs_id (map (category_row am sm) items) = map fst items"
  by (simp add: cs_id_category_row)

lemma rows_id_set: "cs_id ` set (map (category_row am sm) items) = fst ` set items"
  by (simp add: image_image cs_id_category_row)


lemma summary_categories:
  "summary db m = Inr s \<Longrightarrow>
   s_categories s =
     map (category_row (allocations_map_of (find_one (\<lambda>d. bc_month (snd d) = m) (budget db)))
                       (dict_fill [] (aggregate m (expense db))))
         (dict_fill [] (category db))"
  by (auto simp: summary_eq)

lemma summary_rows_id_set:
  assumes "summary db m = Inr s"
  shows "cs_id ` set (s_categories s) = fst ` set (category db)"
proof -
  have "cs_id ` set (s_categories s) = fst ` set (dict_fill [] (category db))"
    by (simp only: summary_categories [OF assms] rows_id_set)
  then show ?thesis by (simp add: keys_dict_fill)
qed


lemma summary_returns: "\<exists>s. summary db m = Inr s"
  unfolding summary_eq by simp


lemma map_of_dict_get:
  "k \<in> fst ` set d \<Longrightarrow> map_of d k = Some (dict_get d k x)"
  by (cases "map_of d k") (simp_all add: map_of_eq_None_iff dict_get_def)

lemma last_target_last:
  assumes "\<forall>a'\<in>set ys. category_id a' \<noteq> category_id a"
  shows "last_target (xs @ a # ys) (category_id a) = target a"
proof -
  from assms have "filter (\<lambda>a'. category_id a' = category_id a) ys = []"
    by (simp add: filter_empty_conv)
  then have "filter (\<lambda>a'. category_id a' = category_id a) (xs @ a # ys) =
               filter (\<lambda>a'. category_id a' = category_id a) xs @ [a]"
    by simp
  moreover have "\<And>fs :: Allocation list. fs \<noteq> [] \<Longrightarrow>
      (case fs of [] \<Rightarrow> 0 | b # bs \<Rightarrow> target (last (b # bs))) = target (last fs)"
    by (case_tac fs) simp_all
  ultimately show ?thesis
    by (simp add: last_target_def)
qed

lemma summary_row_target:
  assumes "summary db m = Inr s" and "r \<in> set (s_categories s)"
  shows "cs_target r = last_target (month_allocations db m) (cs_id r)"
  using assms(2) unfolding summary_categories [OF assms(1)]
  by (auto simp: category_row_def Let_def allocations_map_get)

lemma summary_total_target:
  "summary db m = Inr s \<Longrightarrow>
   s_total_target s =
     (\<Sum>k\<in>category_id ` set (month_allocations db m). last_target (month_allocations db m) k)"
  by (auto simp: summary_eq total_target_by_category)


section \<open>The writes to the store\<close>

lemma create_category_store:
  "fst (create_category db cat new_id) = db\<lparr>category := category db @ [(new_id, cat)]\<rparr>"
  by (simp add: create_category_def create_document_def Let_def)

lemma create_category_distinct:
  "distinct (map fst (category db)) \<Longrightarrow> new_id \<notin> fst ` set (category db) \<Longrightarrow>
   distinct (map fst (category (fst (create_category db cat new_id))))"
  by (simp add: create_category_store)

lemma dict_fill_categories:
  "distinct (map fst (category db)) \<Longrightarrow> dict_fill [] (category db) = category db"
  by (rule trans [OF dict_fill_distinct]) simp_all

lemma name_category_row: "cs_name (category_row am sm item) = name (snd item)"
  by (simp add: category_row_def Let_def)

lemma emoji_category_row: "cs_emoji (category_row am sm item) = emoji (snd item)"
  by (simp add: category_row_def Let_def)

lemma create_budget_store:
  "fst (create_budget db b new_id) =
     db\<lparr>budget := delete_many (\<lambda>d. bc_month (snd d) = bc_month b) (budget db) @ [(new_id, b)]\<rparr>"
  by (simp add: create_budget_def create_document_def Let_def)

lemma find_one_append_fresh:
  "\<forall>d\<in>set xs. \<not> q d \<Longrightarrow> q y \<Longrightarrow> find_one q (xs @ [y]) = Some y"
  by (induction xs) (simp_all add: find_one_def)


section \<open>The claims\<close>

text \<open>
  C1. For a month without a Budget document, \<open>summary\<close> does not fail: it answers with
  income 0, every row has target 0 and no progress, and the answer is not the 404 that
  \<open>get_budget\<close> gives for the same month.
\<close>

theorem summary_without_budget:
  assumes "\<forall>d\<in>set (budget db). bc_month (snd d) \<noteq> m"
  shows "\<exists>s. summary db m = Inr s \<and> s_income s = 0
           \<and> (\<forall>r\<in>set (s_categories s). cs_target r = 0 \<and> cs_progress r = None)
           \<and> (\<forall>detail. summary db m \<noteq> Inl (HTTPException 404 detail))
           \<and> get_budget db m = Inl (HTTPException 404 ''Budget not found for month'')"
proof -
  from assms have none: "find_one (\<lambda>d. bc_month (snd d) = m) (budget db) = None"
    by (simp add: find_one_None)
  show ?thesis
    unfolding summary_eq none
    by (simp add: income_of_def allocations_map_of_def category_row_def dict_get_Nil get_budget_def none)
qed

theorem summary_without_budget_witness:
  "list_all (\<lambda>d. bc_month (snd d) \<noteq> ''2024-02'') (budget example_store) \<and>
   (\<exists>s. summary example_store ''2024-02'' = Inr s \<and> s_income s = 0
      \<and> (\<forall>r\<in>set (s_categories s). cs_target r = 0 \<and> cs_progress r = None)
      \<and> (\<forall>detail. summary example_store ''2024-02'' \<noteq> Inl (HTTPException 404 detail))
      \<and> get_budget example_store ''2024-02'' = Inl (HTTPException 404 ''Budget not found for month''))"
proof -
  have h: "\<forall>d\<in>set (budget example_store). bc_month (snd d) \<noteq> ''2024-02''"
    by (simp add: example_store_def)
  from summary_without_budget [OF h] h show ?thesis
    unfolding list_all_iff by blast
qed




text \<open>
  C3. In every row of the summary, a target above zero gives
  \<open>progress = spent / target * 100\<close> and a target of zero gives no progress at all,
  whatever was spent; the summary always answers, so the quotient is never formed with a
  zero divisor.
\<close>

theorem summary_progress:
  "\<exists>s. summary db m = Inr s \<and>
     (\<forall>r\<in>set (s_categories s).
        (0 < cs_target r \<longrightarrow> cs_progress r = Some (cs_spent r / cs_target r * 100)) \<and>
        (cs_target r = 0 \<longrightarrow> cs_progress r = None))"
  unfolding summary_eq by (auto simp: category_row_def Let_def)

theorem summary_progress_witness:
  "\<exists>s. summary example_store ''2024-01'' = Inr s \<and>
     s_categories s \<noteq> [] \<and>
     (\<exists>r\<in>set (s_categories s). 0 < cs_target r \<and> cs_progress r = Some 40) \<and>
     (\<exists>r\<in>set (s_categories s). cs_target r = 0 \<and> cs_progress r = None)"
  using summary_progress [of example_store "''2024-01''"]
  by (simp add: example_january)

text \<open>
  C4. The remaining amount of the summary is \<open>max (income - total_spent) 0\<close>, and it is
  never negative.
\<close>

theorem summary_remaining:
  "\<exists>s. summary db m = Inr s \<and> s_remaining s = max (s_income s - s_total_spent s) 0 \<and> 0 \<le> s_remaining s"
  unfolding summary_eq by simp

text \<open>
  C5. When the allocation list of the month's budget names a category id more than once,
  the last allocation with that id decides: the allocation map holds its target, a row
  with that id shows its target, and the total target adds, for each id of the list, the
  target of the last allocation with that id.
\<close>

theorem allocations_last_write_wins:
  assumes split: "month_allocations db m = xs @ a # ys"
    and last: "\<forall>a'\<in>set ys. category_id a' \<noteq> category_id a"
  shows "\<exists>s. summary db m = Inr s
      \<and> map_of (allocations_map_of (find_one (\<lambda>d. bc_month (snd d) = m) (budget db))) (category_id a)
          = Some (target a)
      \<and> (\<forall>r\<in>set (s_categories s). cs_id r = category_id a \<longrightarrow> cs_target r = target a)
      \<and> (\<forall>r\<in>set (s_categories s). cs_target r = last_target (month_allocations db m) (cs_id r))
      \<and> s_total_target s =
          sum_list (map (last_target (month_allocations db m))
                        (remdups (map category_id (month_allocations db m))))"
proof -
  obtain s where s: "summary db m = Inr s"
    using summary_returns by blast
  have lt: "last_target (month_allocations db m) (category_id a) = target a"
    unfolding split by (rule last_target_last [OF last])
  have "category_id a \<in> fst ` set (allocations_map_of (find_one (\<lambda>d. bc_month (snd d) = m) (budget db)))"
    by (simp add: allocations_map_keys split)
  then have 1: "map_of (allocations_map_of (find_one (\<lambda>d. bc_month (snd d) = m) (budget db))) (category_id a)
          = Some (target a)"
    using map_of_dict_get [where x = 0] allocations_map_get lt by metis
  have 3: "\<forall>r\<in>set (s_categories s). cs_target r = last_target (month_allocations db m) (cs_id r)"
    using summary_row_target [OF s] by blast
  then have 2: "\<forall>r\<in>set (s_categories s). cs_id r = category_id a \<longrightarrow> cs_target r = target a"
    using lt by simp
  have "sum_list (map (last_target (month_allocations db m))
                        (remdups (map category_id (month_allocations db m)))) =
        (\<Sum>k\<in>set (remdups (map category_id (month_allocations db m))). last_target (month_allocations db m) k)"
    by (rule sum_list_distinct_conv_sum_set) simp
  then have 4: "s_total_target s =
          sum_list (map (last_target (month_allocations db m))
                        (remdups (map category_id (month_allocations db m))))"
    using summary_total_target [OF s] by simp
  from s 1 2 3 4 show ?thesis by blast
qed

theorem allocations_last_write_wins_witness:
  "month_allocations example_store ''2024-01'' =
     [\<lparr>category_id = ''c1'', target = 40\<rparr>] @ \<lparr>category_id = ''c1'', target = 50\<rparr>
       # [\<lparr>category_id = ''zz'', target = 7\<rparr>] \<and>
   list_all (\<lambda>a'. category_id a' \<noteq> ''c1'') [\<lparr>category_id = ''zz'', target = 7\<rparr>] \<and>
   (\<exists>s. summary example_store ''2024-01'' = Inr s \<and>
      (\<exists>r\<in>set (s_categories s). cs_id r = ''c1'' \<and> cs_target r = 50) \<and>
      s_total_target s = 57)"
proof -
  let ?a = "\<lparr>category_id = ''c1'', target = 50\<rparr>"
  let ?ys = "[\<lparr>category_id = ''zz'', target = 7\<rparr>]"
  have split: "month_allocations example_store ''2024-01'' =
     [\<lparr>category_id = ''c1'', target = 40\<rparr>] @ ?a # ?ys"
    by (simp add: month_allocations_def find_one_def example_store_def)
  have last: "\<forall>a'\<in>set ?ys. category_id a' \<noteq> category_id ?a"
    by simp
  from allocations_last_write_wins [OF split last]
  obtain s where s: "summary example_store ''2024-01'' = Inr s"
    and rows: "\<forall>r\<in>set (s_categories s). cs_id r = category_id ?a \<longrightarrow> cs_target r = target ?a"
    and tot: "s_total_target s =
          sum_list (map (last_target (month_allocations example_store ''2024-01''))
                        (remdups (map category_id (month_allocations example_store ''2024-01''))))"
    by blast
  have ids: "cs_id ` set (s_categories s) = fst ` set (category example_store)"
    by (rule summary_rows_id_set [OF s])
  have "''c1'' \<in> fst ` set (category example_store)"
    by (simp add: example_store_def)
  with ids obtain r where r: "r \<in> set (s_categories s)" "cs_id r = ''c1''"
    by (metis imageE)
  with rows have "cs_target r = 50" by simp
  with r have row: "\<exists>r\<in>set (s_categories s). cs_id r = ''c1'' \<and> cs_target r = 50" by blast
  have keys: "remdups (map category_id (month_allocations example_store ''2024-01'')) = [''c1'', ''zz'']"
    by (simp add: split)
  have "last_target (month_allocations example_store ''2024-01'') ''c1'' = 50"
    and "last_target (month_allocations example_store ''2024-01'') ''zz'' = 7"
    by (simp_all add: split last_target_def)
  then have total: "s_total_target s = 57"
    unfolding tot keys by simp
  have "list_all (\<lambda>a'. category_id a' \<noteq> ''c1'') ?ys" by simp
  with split s row total show ?thesis by blast
qed

text \<open>
  C6. After \<open>create_budget\<close> for a month, whatever the store held before, exactly one
  budget document of that month exists, the one just written with its income and
  allocations; the budgets of that month that existed were deleted first and those of
  other months are kept; \<open>get_budget\<close> then answers with the new document. In particular
  two upserts for one month leave the second one's document alone.
\<close>

theorem create_budget_upsert:
  "budget (fst (create_budget db b new_id)) =
     delete_many (\<lambda>d. bc_month (snd d) = bc_month b) (budget db) @ [(new_id, b)]
   \<and> filter (\<lambda>d. bc_month (snd d) = bc_month b) (budget (fst (create_budget db b new_id))) = [(new_id, b)]
   \<and> filter (\<lambda>d. bc_month (snd d) \<noteq> bc_month b) (budget (fst (create_budget db b new_id))) =
       filter (\<lambda>d. bc_month (snd d) \<noteq> bc_month b) (budget db)
   \<and> get_budget (fst (create_budget db b new_id)) (bc_month b) = Inr (Some (new_id, b))
   \<and> filter (\<lambda>d. bc_month (snd d) = M)
        (budget (fst (create_budget
           (fst (create_budget db \<lparr>bc_month = M, bc_income = income1, bc_allocations = allocs1\<rparr> id1))
           \<lparr>bc_month = M, bc_income = income2, bc_allocations = allocs2\<rparr> id2))) =
       [(id2, \<lparr>bc_month = M, bc_income = income2, bc_allocations = allocs2\<rparr>)]"
proof -
  have one: "\<And>db b new_id. filter (\<lambda>d. bc_month (snd d) = bc_month b)
                (budget (fst (create_budget (db::store) b new_id))) = [(new_id, b)]"
    by (simp add: create_budget_store delete_many_def)
  have "find_one (\<lambda>d. bc_month (snd d) = bc_month b)
          (delete_many (\<lambda>d. bc_month (snd d) = bc_month b) (budget db) @ [(new_id, b)]) = Some (new_id, b)"
    by (rule find_one_append_fresh) (simp_all add: delete_many_def)
  then have get: "get_budget (fst (create_budget db b new_id)) (bc_month b) = Inr (Some (new_id, b))"
    by (simp add: get_budget_def create_budget_store serialize_doc_def)
  have twice: "filter (\<lambda>d. bc_month (snd d) = M)
        (budget (fst (create_budget
           (fst (create_budget db \<lparr>bc_month = M, bc_income = income1, bc_allocations = allocs1\<rparr> id1))
           \<lparr>bc_month = M, bc_income = income2, bc_allocations = allocs2\<rparr> id2))) =
       [(id2, \<lparr>bc_month = M, bc_income = income2, bc_allocations = allocs2\<rparr>)]"
    using one [of "\<lparr>bc_month = M, bc_income = income2, bc_allocations = allocs2\<rparr>"
                  "fst (create_budget db \<lparr>bc_month = M, bc_income = income1, bc_allocations = allocs1\<rparr> id1)" id2]
    by simp
  show ?thesis
    using one [of b db new_id] get twice
    by (simp add: create_budget_store delete_many_def)
qed

text \<open>
  C7. A budget with a negative income passes the validation of \<^verbatim>\<open>POST /api/budgets\<close>
  and is stored, although the schema \<^verbatim>\<open>Budget\<close> of \<^verbatim>\<open>schemas.py\<close> bounds the income by
  \<^verbatim>\<open>ge=0\<close>; a negative target in the same request model is refused.
\<close>

theorem post_budgets_negative_income:
  "post_budgets empty_store \<lparr>bc_month = ''2024-01'', bc_income = - 5, bc_allocations = []\<rparr> ''b1'' =
     Inr (\<lparr>category = [],
           budget = [(''b1'', \<lparr>bc_month = ''2024-01'', bc_income = - 5, bc_allocations = []\<rparr>)],
           expense = []\<rparr>,
          Some (''b1'', \<lparr>bc_month = ''2024-01'', bc_income = - 5, bc_allocations = []\<rparr>))
   \<and> \<not> Budget_valid \<lparr>month = ''2024-01'', income = - 5, allocations = []\<rparr>
   \<and> post_budgets empty_store
         \<lparr>bc_month = ''2024-01'', bc_income = 5,
          bc_allocations = [\<lparr>category_id = ''c1'', target = - 1\<rparr>]\<rparr> ''b1'' =
       Inl RequestValidationError"
  by (simp add: post_budgets_def BudgetCreate_valid_def Allocation_valid_def Budget_valid_def
        create_budget_def create_document_def delete_many_def find_one_def serialize_doc_def
        empty_store_def Let_def)

text \<open>
  C8 (as amended). The request model of \<^verbatim>\<open>POST /api/expenses\<close> has the fields month,
  category id, amount and an optional note, and no \<^verbatim>\<open>spent_on\<close>. For an amount that is
  not negative, the operation appends one expense document with those four fields of the
  body as given and changes nothing else in the store; a \<^verbatim>\<open>spent_on\<close> of the body is
  ignored.
\<close>

theorem post_expenses_appends:
  assumes "0 \<le> body_amount body"
  shows "(\<exists>doc. post_expenses db body new_id =
            Inr (db\<lparr>expense := expense db @
                   [(new_id, \<lparr>ec_month = body_month body, ec_category_id = body_category_id body,
                              ec_amount = body_amount body, ec_note = body_note body\<rparr>)]\<rparr>, doc))
         \<and> post_expenses db (body\<lparr>body_spent_on := x\<rparr>) new_id = post_expenses db body new_id"
  by (simp add: post_expenses_def ExpenseCreate_parse_def ExpenseCreate_valid_def add_expense_def
        create_document_def Let_def)

theorem post_expenses_appends_witness:
  "(0::rat) \<le> body_amount (january_expense ''c1'' 100) \<and>
   (\<exists>doc. post_expenses example_store (january_expense ''c1'' 100) ''e9'' =
      Inr (example_store\<lparr>expense := expense example_store @
             [(''e9'', \<lparr>ec_month = ''2024-01'', ec_category_id = ''c1'', ec_amount = 100,
                        ec_note = None\<rparr>)]\<rparr>, doc))"
proof -
  have h: "0 \<le> body_amount (january_expense ''c1'' 100)"
    by (simp add: january_expense_def)
  from post_expenses_appends [OF h, of example_store "''e9''"]
  have "\<exists>doc. post_expenses example_store (january_expense ''c1'' 100) ''e9'' =
      Inr (example_store\<lparr>expense := expense example_store @
             [(''e9'', \<lparr>ec_month = ''2024-01'', ec_category_id = ''c1'', ec_amount = 100,
                        ec_note = None\<rparr>)]\<rparr>, doc)"
    by (simp add: january_expense_def)
  with h show ?thesis by (rule conjI)
qed

text \<open>
  The claim as the spec words it does not hold: on an empty store, a body with the date
  2024-01-15 is answered and stored exactly as the same body without a date is.
\<close>

theorem post_expenses_ignores_spent_on:
  "body_spent_on \<lparr>body_month = ''2024-01'', body_category_id = ''c1'', body_amount = 10,
                  body_note = None, body_spent_on = Some ''2024-01-15''\<rparr> = Some ''2024-01-15''
   \<and> post_expenses empty_store
         \<lparr>body_month = ''2024-01'', body_category_id = ''c1'', body_amount = 10,
          body_note = None, body_spent_on = Some ''2024-01-15''\<rparr> ''e1'' =
       Inr (\<lparr>category = [], budget = [],
             expense = [(''e1'', \<lparr>ec_month = ''2024-01'', ec_category_id = ''c1'', ec_amount = 10,
                                ec_note = None\<rparr>)]\<rparr>,
            Some (''e1'', \<lparr>ec_month = ''2024-01'', ec_category_id = ''c1'', ec_amount = 10,
                           ec_note = None\<rparr>))
   \<and> post_expenses empty_store
         \<lparr>body_month = ''2024-01'', body_category_id = ''c1'', body_amount = 10,
          body_note = None, body_spent_on = Some ''2024-01-15''\<rparr> ''e1'' =
       post_expenses empty_store
         \<lparr>body_month = ''2024-01'', body_category_id = ''c1'', body_amount = 10,
          body_note = None, body_spent_on = None\<rparr> ''e1''"
  by (simp add: post_expenses_def ExpenseCreate_parse_def ExpenseCreate_valid_def add_expense_def
        create_document_def find_one_def serialize_doc_def empty_store_def Let_def)

text \<open>
  C9. The scenario of the spec, from an empty store: the category Food is created and
  gets the id \<open>c1\<close>, the budget of January 2024 with income 1000 and the allocation
  \<open>(c1, 300)\<close> is accepted and upserted, the expenses of 100 and 50 on \<open>c1\<close> are added.
  The summary of January then has income 1000, total target 300, total spent 150,
  remaining 850 and the single row of \<open>c1\<close> with target 300, spent 150 and progress 50.
\<close>

theorem scenario_summary:
  "snd (create_category empty_store food c1) = Some (c1, food)
   \<and> post_budgets (fst (create_category empty_store food c1)) (january_budget c1) b1 =
       Inr (create_budget (fst (create_category empty_store food c1)) (january_budget c1) b1)
   \<and> summary (scenario_store c1 b1 e1 e2) ''2024-01'' =
       Inr \<lparr>s_month = ''2024-01'', s_income = 1000, s_total_target = 300, s_total_spent = 150,
            s_remaining = 850,
            s_categories =
              [\<lparr>cs_id = c1, cs_name = ''Food'', cs_emoji = Some burger, cs_target = 300,
                cs_spent = 150, cs_progress = Some 50\<rparr>]\<rparr>"
  by (simp add: scenario_store_def food_def january_budget_def january_expense_def
        post_budgets_def BudgetCreate_valid_def Allocation_valid_def
        ExpenseCreate_parse_def create_category_def create_budget_def add_expense_def
        create_document_def delete_many_def find_one_def serialize_doc_def empty_store_def
        summary_def allocations_map_of_def income_of_def aggregate_def dict_get_def
        dict_values_def progress_of_def py_truediv_def Let_def)

text \<open>
  C10. The rows of the summary have pairwise distinct ids, and the set of their ids is
  the set of the ids of the Category documents; the list of row ids is computed from the
  category collection alone, whatever the expenses and the budget are. When the stored
  ids are distinct, as the driver guarantees, the rows are the Category documents one for
  one, in order, with their id, name and emoji, so that two categories of the same name
  give two rows.
\<close>

theorem summary_one_row_per_category:
  "\<exists>s. summary db m = Inr s
     \<and> distinct (map cs_id (s_categories s))
     \<and> set (map cs_id (s_categories s)) = fst ` set (category db)
     \<and> map cs_id (s_categories s) = map fst (dict_fill [] (category db))
     \<and> (distinct (map fst (category db)) \<longrightarrow>
          map (\<lambda>r. (cs_id r, cs_name r, cs_emoji r)) (s_categories s) =
          map (\<lambda>d. (fst d, name (snd d), emoji (snd d))) (category db))"
proof -
  obtain s where s: "summary db m = Inr s"
    using summary_returns by blast
  note rows = summary_categories [OF s]
  have 3: "map cs_id (s_categories s) = map fst (dict_fill [] (category db))"
    unfolding rows by (rule rows_ids)
  have 1: "distinct (map cs_id (s_categories s))"
    unfolding 3 by (rule distinct_dict_fill) simp
  have 2: "set (map cs_id (s_categories s)) = fst ` set (category db)"
    unfolding 3 by (simp add: keys_dict_fill)
  have 4: "distinct (map fst (category db)) \<longrightarrow>
          map (\<lambda>r. (cs_id r, cs_name r, cs_emoji r)) (s_categories s) =
          map (\<lambda>d. (fst d, name (snd d), emoji (snd d))) (category db)"
  proof
    assume "distinct (map fst (category db))"
    then have "dict_fill [] (category db) = category db"
      by (rule dict_fill_categories)
    then show "map (\<lambda>r. (cs_id r, cs_name r, cs_emoji r)) (s_categories s) =
          map (\<lambda>d. (fst d, name (snd d), emoji (snd d))) (category db)"
      unfolding rows
      by (simp add: comp_def cs_id_category_row name_category_row emoji_category_row)
  qed
  from s 1 2 3 4 show ?thesis by blast
qed

theorem summary_one_row_per_category_witness:
  "distinct (map fst (category example_store)) \<and>
   (\<exists>s. summary example_store ''2024-01'' = Inr s \<and>
      map (\<lambda>r. (cs_id r, cs_name r, cs_emoji r)) (s_categories s) =
        [(''c1'', ''Food'', None), (''c2'', ''Food'', None)])"
proof -
  have d: "distinct (map fst (category example_store))"
    by (simp add: example_store_def)
  from summary_one_row_per_category [of example_store "''2024-01''"]
  obtain s where s: "summary example_store ''2024-01'' = Inr s"
    and rows: "distinct (map fst (category example_store)) \<longrightarrow>
          map (\<lambda>r. (cs_id r, cs_name r, cs_emoji r)) (s_categories s) =
          map (\<lambda>d. (fst d, name (snd d), emoji (snd d))) (category example_store)"
    by blast
  from rows d have "map (\<lambda>r. (cs_id r, cs_name r, cs_emoji r)) (s_categories s) =
        [(''c1'', ''Food'', None), (''c2'', ''Food'', None)]"
    by (simp add: example_store_def)
  with s have "\<exists>s. summary example_store ''2024-01'' = Inr s \<and>
      map (\<lambda>r. (cs_id r, cs_name r, cs_emoji r)) (s_categories s) =
        [(''c1'', ''Food'', None), (''c2'', ''Food'', None)]"
    by (intro exI [of _ s] conjI)
  with d show ?thesis by (rule conjI)
qed

end
